theory Spec2Isabelle
  imports Main
begin

section \<open>Data model\<close>

text \<open>
  The service in \<^verbatim>\<open>routes.py\<close> is a Flask blueprint over three SQLAlchemy tables,
  \<^verbatim>\<open>User\<close>, \<^verbatim>\<open>Train\<close> and \<^verbatim>\<open>Booking\<close>, imported from the module \<^verbatim>\<open>models\<close>.
  Python integers are unbounded, so seat counts are \<open>int\<close>; primary keys are \<open>nat\<close>.
  A Python \<^verbatim>\<open>str\<close> is a sequence of Unicode code points. The email address is the one
  string that the code inspects character by character, so it is a list of code points;
  the other strings are only stored, compared and tested for emptiness.
\<close>

type_synonym unicode = "nat list"

text \<open>The code points of an ASCII literal.\<close>

definition codes :: "string \<Rightarrow> unicode" where
  "codes s = map of_char s"

text \<open>
  Modelled from the spec: the module \<^verbatim>\<open>models\<close> (the column declarations of the three
  tables) is imported by \<^verbatim>\<open>routes.py\<close> and is not part of the sources at hand. The rows
  below follow the data model of the specification,
  \<^verbatim>\<open>User {id, name, email, password_hash, role}\<close>,
  \<^verbatim>\<open>Train {id, name, source, destination, total_seats}\<close> and
  \<^verbatim>\<open>Booking {id, user_id, train_id, seats_booked}\<close>, with the attribute names that
  \<^verbatim>\<open>routes.py\<close> reads and writes. Field names carry a prefix because record fields
  share one name space.
\<close>

record user =
  u_id :: nat
  u_name :: string
  u_email :: unicode
  u_password :: string
  u_role :: string

record train =
  t_id :: nat
  t_name :: string
  t_source :: string
  t_destination :: string
  total_seats :: int

record booking =
  b_id :: nat
  b_user_id :: nat
  b_train_id :: nat
  seats_booked :: int

text \<open>
  The record store: one list of rows per table, in insertion order. Every handler takes
  the store and returns the store after its commit.
\<close>

record db =
  users :: "user list"
  trains :: "train list"
  bookings :: "booking list"

definition empty_db :: db where
  "empty_db = \<lparr>users = [], trains = [], bookings = []\<rparr>"

text \<open>
  The primary keys are assigned by the record store when a row is committed
  (\<^verbatim>\<open>new_booking.id\<close> is read only after \<^verbatim>\<open>db.session.commit()\<close>): an integer key
  that counts up, the successor of the largest key in the table, and 1 for an empty table.
  Rows are never deleted, so a key is never handed out twice.
\<close>

definition next_id :: "nat list \<Rightarrow> nat" where
  "next_id ids = Suc (fold max ids 0)"

text \<open>
  An integer column of the record store holds a signed 64-bit value. A commit that writes
  an integer outside this range is refused: the store raises, nothing of the transaction
  is stored, and the handler's \<^verbatim>\<open>except\<close> branch answers.
\<close>

definition storable :: "int \<Rightarrow> bool" where
  "storable v \<longleftrightarrow> - (2 ^ 63) \<le> v \<and> v < 2 ^ 63"

section \<open>Requests and responses\<close>

text \<open>
  A handler returns \<^verbatim>\<open>jsonify(...), status\<close>: a JSON body and an HTTP status code.
\<close>

record avail_entry =
  a_id :: nat
  a_name :: string
  available_seats :: int
  a_source :: string
  a_destination :: string

record booking_detail =
  d_booking_id :: nat
  d_train_name :: string
  d_seats_booked :: int
  d_source :: string
  d_destination :: string

text \<open>
  The exceptions of the model: reading an attribute of \<^verbatim>\<open>None\<close>, and the exception that
  the record store raises when it refuses a commit.
\<close>

datatype py_error = AttributeError | StoreException

text \<open>
  \<open>ExceptionText e\<close> is the body \<^verbatim>\<open>{"msg": str(e)}\<close> of an \<^verbatim>\<open>except\<close> branch; the text
  is the store's.
\<close>

datatype body =
    Msg string
  | ExceptionText py_error
  | BookingCreated string nat
  | AvailabilityList "avail_entry list"
  | BookingDetail booking_detail

type_synonym response = "body \<times> nat"

text \<open>The JSON documents that \<^verbatim>\<open>register\<close> and \<^verbatim>\<open>add_train\<close> read.\<close>

record register_json =
  rj_name :: string
  rj_email :: unicode
  rj_password :: string
  rj_role :: "string option"

record train_json =
  tj_name :: string
  tj_source :: string
  tj_destination :: string
  tj_total_seats :: int

section \<open>Email validation\<close>

text \<open>
  \<^verbatim>\<open>is_valid_email\<close> matches the address against
  \<^verbatim>\<open>^[\w\.-]+@[\w\.-]+\.\w{2,}$\<close> with \<^verbatim>\<open>re.match\<close>. The pattern is written as a
  regular expression over character classes and matched by derivatives.
\<close>

datatype rx =
    Nothing
  | Eps
  | Cls "nat \<Rightarrow> bool"
  | Seq rx rx
  | Alt rx rx
  | Star rx

fun nullable :: "rx \<Rightarrow> bool" where
  "nullable Nothing = False"
| "nullable Eps = True"
| "nullable (Cls p) = False"
| "nullable (Seq r s) = (nullable r \<and> nullable s)"
| "nullable (Alt r s) = (nullable r \<or> nullable s)"
| "nullable (Star r) = True"

fun deriv :: "nat \<Rightarrow> rx \<Rightarrow> rx" where
  "deriv c Nothing = Nothing"
| "deriv c Eps = Nothing"
| "deriv c (Cls p) = (if p c then Eps else Nothing)"
| "deriv c (Seq r s) =
     (if nullable r then Alt (Seq (deriv c r) s) (deriv c s) else Seq (deriv c r) s)"
| "deriv c (Alt r s) = Alt (deriv c r) (deriv c s)"
| "deriv c (Star r) = Seq (deriv c r) (Star r)"

fun full_match :: "rx \<Rightarrow> unicode \<Rightarrow> bool" where
  "full_match r [] = nullable r"
| "full_match r (c # cs) = full_match (deriv c r) cs"

text \<open>
  \<^verbatim>\<open>\w\<close> on a \<^verbatim>\<open>str\<close> pattern is Unicode-aware: the underscore and every code point
  that Python classifies as alphanumeric. Below 128 these are the ASCII letters and
  digits. Beyond, the classification is a table of the Unicode database that Python
  ships; it is the parameter \<open>alnum\<close> of the validation and of every function that calls it.
\<close>

definition ascii_word :: "nat \<Rightarrow> bool" where
  "ascii_word c \<longleftrightarrow>
     (48 \<le> c \<and> c \<le> 57) \<or> (65 \<le> c \<and> c \<le> 90) \<or> c = 95 \<or> (97 \<le> c \<and> c \<le> 122)"

definition word_char :: "(nat \<Rightarrow> bool) \<Rightarrow> nat \<Rightarrow> bool" where
  "word_char alnum c = (if c < 128 then ascii_word c else alnum c)"

text \<open>\<^verbatim>\<open>[\w\.-]\<close>: a word character, the full stop (46) or the hyphen (45).\<close>

definition local_char :: "(nat \<Rightarrow> bool) \<Rightarrow> nat \<Rightarrow> bool" where
  "local_char alnum c \<longleftrightarrow> word_char alnum c \<or> c = 46 \<or> c = 45"

text \<open>\<^verbatim>\<open>r+\<close>\<close>

definition one_or_more :: "rx \<Rightarrow> rx" where
  "one_or_more r = Seq r (Star r)"

text \<open>
  \<^verbatim>\<open>$\<close> holds at the end of the string and just before a newline (10) that ends the
  string.
\<close>

definition end_anchor :: rx where
  "end_anchor = Alt Eps (Cls (\<lambda>c. c = 10))"

text \<open>The pattern; 64 is the at sign.\<close>

definition email_regex :: "(nat \<Rightarrow> bool) \<Rightarrow> rx" where
  "email_regex alnum =
     Seq (one_or_more (Cls (local_char alnum)))
      (Seq (Cls (\<lambda>c. c = 64))
        (Seq (one_or_more (Cls (local_char alnum)))
          (Seq (Cls (\<lambda>c. c = 46))
            (Seq (Seq (Cls (word_char alnum))
                   (Seq (Cls (word_char alnum)) (Star (Cls (word_char alnum)))))
              end_anchor))))"

definition is_valid_email :: "(nat \<Rightarrow> bool) \<Rightarrow> unicode \<Rightarrow> bool" where
  "is_valid_email alnum email = full_match (email_regex alnum) email"

section \<open>Handlers\<close>

text \<open>
  The identity that \<^verbatim>\<open>get_jwt_identity()\<close> returns under \<^verbatim>\<open>@jwt_required()\<close> is an
  argument of the handler: the token has been verified by the identity provider before
  the body runs. A \<^verbatim>\<open>try\<close> block adds rows and commits; when the store refuses the
  commit, the \<^verbatim>\<open>except\<close> branch answers 500 with the exception's text and the store is
  as it was before the call.
\<close>

subsection \<open>\<^verbatim>\<open>register\<close>\<close>

text \<open>
  \<^verbatim>\<open>generate_password_hash\<close> salts the hash, so its result is not a function of the
  password: the value it returned is the argument \<open>hashed_password\<close>.
  \<^verbatim>\<open>data.get('role', 'user')\<close> is the request's role, and \<^verbatim>\<open>'user'\<close> when the key is
  absent. The new row holds strings and the key that the store assigns, so the store
  accepts the commit.
\<close>

definition register ::
  "(nat \<Rightarrow> bool) \<Rightarrow> db \<Rightarrow> register_json \<Rightarrow> string \<Rightarrow> db \<times> response" where
  "register alnum d data hashed_password =
     (if \<not> is_valid_email alnum (rj_email data) then (d, (Msg ''Invalid email format.'', 400))
      else
        (case List.find (\<lambda>u. u_email u = rj_email data) (users d) of
           Some existing_user \<Rightarrow> (d, (Msg ''Email already registered.'', 400))
         | None \<Rightarrow>
             (let new_user = \<lparr>u_id = next_id (map u_id (users d)),
                              u_name = rj_name data,
                              u_email = rj_email data,
                              u_password = hashed_password,
                              u_role = (case rj_role data of None \<Rightarrow> ''user'' | Some r \<Rightarrow> r)\<rparr>
              in (d\<lparr>users := users d @ [new_user]\<rparr>,
                  (Msg ''User created successfully'', 201)))))"

subsection \<open>\<^verbatim>\<open>add_train\<close> under \<^verbatim>\<open>admin_required\<close>\<close>

definition admin_required :: "db \<Rightarrow> nat \<Rightarrow> bool" where
  "admin_required d current_user_id =
     (case List.find (\<lambda>u. u_id u = current_user_id) (users d) of
        None \<Rightarrow> False
      | Some u \<Rightarrow> u_role u = ''admin'')"

text \<open>
  The commit writes \<^verbatim>\<open>total_seats\<close> of the new row.
\<close>

definition add_train :: "db \<Rightarrow> nat \<Rightarrow> train_json \<Rightarrow> db \<times> response" where
  "add_train d current_user_id data =
     (if admin_required d current_user_id then
        (let new_train = \<lparr>t_id = next_id (map t_id (trains d)),
                          t_name = tj_name data,
                          t_source = tj_source data,
                          t_destination = tj_destination data,
                          total_seats = tj_total_seats data\<rparr>
         in if storable (total_seats new_train) then
              (d\<lparr>trains := trains d @ [new_train]\<rparr>, (Msg ''Train added successfully'', 201))
            else (d, (ExceptionText StoreException, 500)))
      else (d, (Msg ''Admin access required'', 403)))"

subsection \<open>The seat query\<close>

text \<open>
  \<^verbatim>\<open>db.session.query(db.func.sum(Booking.seats_booked)).filter_by(train_id=...).scalar()\<close>
  is SQL's \<^verbatim>\<open>SUM\<close>: \<^verbatim>\<open>None\<close> over no rows, the sum otherwise. \<^verbatim>\<open>x or 0\<close> is 0 when
  \<open>x\<close> is \<^verbatim>\<open>None\<close> or 0, and \<open>x\<close> otherwise.
\<close>

definition sum_seats_booked :: "db \<Rightarrow> nat \<Rightarrow> int option" where
  "sum_seats_booked d tid =
     (case filter (\<lambda>b. b_train_id b = tid) (bookings d) of
        [] \<Rightarrow> None
      | rows \<Rightarrow> Some (sum_list (map seats_booked rows)))"

definition or_zero :: "int option \<Rightarrow> int" where
  "or_zero x = (case x of None \<Rightarrow> 0 | Some v \<Rightarrow> if v = 0 then 0 else v)"

definition booked_seats :: "db \<Rightarrow> nat \<Rightarrow> int" where
  "booked_seats d tid = or_zero (sum_seats_booked d tid)"

subsection \<open>\<^verbatim>\<open>get_availability\<close>\<close>

text \<open>
  The loop over the matching trains appends one entry per train to \<^verbatim>\<open>result\<close>. It
  computes \<^verbatim>\<open>booked_seats\<close> in every round and reports \<^verbatim>\<open>train.total_seats\<close>.
\<close>

fun availability_loop :: "db \<Rightarrow> train list \<Rightarrow> avail_entry list \<Rightarrow> avail_entry list" where
  "availability_loop d [] result = result"
| "availability_loop d (train # rest) result =
     (let booked = booked_seats d (t_id train) in
      availability_loop d rest
        (result @ [\<lparr>a_id = t_id train,
                    a_name = t_name train,
                    available_seats = total_seats train,
                    a_source = t_source train,
                    a_destination = t_destination train\<rparr>]))"

definition get_availability :: "db \<Rightarrow> string \<Rightarrow> string \<Rightarrow> response" where
  "get_availability d source destination =
     (if source = [] \<or> destination = [] then
        (Msg ''Source and destination are required.'', 400)
      else
        (let matching =
               filter (\<lambda>t. t_source t = source \<and> t_destination t = destination) (trains d)
         in if matching = [] then
              (Msg ''No trains found for the given source and destination.'', 404)
            else (AvailabilityList (availability_loop d matching []), 200)))"

subsection \<open>\<^verbatim>\<open>book_seat\<close>\<close>

text \<open>
  \<^verbatim>\<open>Train.query.get\<close> is the lookup by primary key. On success the handler adds the
  booking and writes \<^verbatim>\<open>train.total_seats -= data['seats']\<close> to the train's row in the
  same commit, which writes two integers: \<^verbatim>\<open>seats_booked\<close> of the new booking and the
  new \<^verbatim>\<open>total_seats\<close> of the train.
\<close>

definition book_seat :: "db \<Rightarrow> nat \<Rightarrow> nat \<Rightarrow> int \<Rightarrow> db \<times> response" where
  "book_seat d user_id train_id seats =
     (case List.find (\<lambda>t. t_id t = train_id) (trains d) of
        None \<Rightarrow> (d, (Msg ''Train not found'', 404))
      | Some train \<Rightarrow>
          (let booked = booked_seats d (t_id train);
               available = total_seats train - booked
           in if available < seats then (d, (Msg ''Not enough seats available'', 400))
              else
                (let new_booking = \<lparr>b_id = next_id (map b_id (bookings d)),
                                    b_user_id = user_id,
                                    b_train_id = train_id,
                                    seats_booked = seats\<rparr>
                 in if storable (seats_booked new_booking)
                       \<and> storable (total_seats train - seats) then
                      (d\<lparr>bookings := bookings d @ [new_booking],
                         trains := map (\<lambda>t. if t_id t = t_id train
                                             then t\<lparr>total_seats := total_seats t - seats\<rparr>
                                             else t) (trains d)\<rparr>,
                       (BookingCreated ''Booking successful'' (b_id new_booking), 201))
                    else (d, (ExceptionText StoreException, 500)))))"

subsection \<open>\<^verbatim>\<open>get_booking\<close>\<close>

text \<open>
  The query filters on the booking's id and on its owner at once. Reading \<^verbatim>\<open>train.name\<close>
  of a train that is not there raises \<^verbatim>\<open>AttributeError\<close>.
\<close>

definition get_booking :: "db \<Rightarrow> nat \<Rightarrow> nat \<Rightarrow> py_error + response" where
  "get_booking d user_id booking_id =
     (case List.find (\<lambda>b. b_id b = booking_id \<and> b_user_id b = user_id) (bookings d) of
        None \<Rightarrow> Inr (Msg ''Booking not found'', 404)
      | Some b \<Rightarrow>
          (case List.find (\<lambda>t. t_id t = b_train_id b) (trains d) of
             None \<Rightarrow> Inl AttributeError
           | Some train \<Rightarrow>
               Inr (BookingDetail \<lparr>d_booking_id = b_id b,
                                   d_train_name = t_name train,
                                   d_seats_booked = seats_booked b,
                                   d_source = t_source train,
                                   d_destination = t_destination train\<rparr>, 200)))"

section \<open>Sequences of calls\<close>

text \<open>
  The calls that write to the store. \<^verbatim>\<open>get_availability\<close> and \<^verbatim>\<open>get_booking\<close> only
  read. \<open>run\<close> performs the calls in order, each on the store its predecessor left.
\<close>

datatype call =
    Register register_json string
  | AddTrain nat train_json
  | BookSeat nat nat int

fun exec :: "(nat \<Rightarrow> bool) \<Rightarrow> db \<Rightarrow> call \<Rightarrow> db" where
  "exec alnum d (Register data hashed_password) = fst (register alnum d data hashed_password)"
| "exec alnum d (AddTrain current_user_id data) = fst (add_train d current_user_id data)"
| "exec alnum d (BookSeat user_id train_id seats) = fst (book_seat d user_id train_id seats)"

definition run :: "(nat \<Rightarrow> bool) \<Rightarrow> db \<Rightarrow> call list \<Rightarrow> db" where
  "run alnum d calls = foldl (exec alnum) d calls"

text \<open>The sum of \<^verbatim>\<open>seats_booked\<close> over the bookings of one train.\<close>

definition seats_booked_sum :: "db \<Rightarrow> nat \<Rightarrow> int" where
  "seats_booked_sum d tid =
     sum_list (map seats_booked (filter (\<lambda>b. b_train_id b = tid) (bookings d)))"

text \<open>
  A freshly created train: the one row with this id holds the capacity it was created
  with, and no booking refers to it.
\<close>

definition freshly_created :: "db \<Rightarrow> nat \<Rightarrow> int \<Rightarrow> bool" where
  "freshly_created d tid capacity \<longleftrightarrow>
     map total_seats (filter (\<lambda>t. t_id t = tid) (trains d)) = [capacity]
     \<and> filter (\<lambda>b. b_train_id b = tid) (bookings d) = []"

text \<open>
  The ledger equation of one train: every row with this id (there is exactly one) stores
  the capacity less the seats booked on it.
\<close>

definition ledger :: "db \<Rightarrow> nat \<Rightarrow> int \<Rightarrow> bool" where
  "ledger d tid capacity \<longleftrightarrow>
     map total_seats (filter (\<lambda>t. t_id t = tid) (trains d))
       = [capacity - seats_booked_sum d tid]"

definition within_capacity :: "db \<Rightarrow> nat \<Rightarrow> int \<Rightarrow> bool" where
  "within_capacity d tid capacity \<longleftrightarrow>
     ledger d tid capacity \<and> 0 \<le> seats_booked_sum d tid
     \<and> seats_booked_sum d tid \<le> capacity"

text \<open>A call that, if it books on train \<open>tid\<close>, asks for no negative number of seats.\<close>

fun nonneg_on :: "nat \<Rightarrow> call \<Rightarrow> bool" where
  "nonneg_on tid (BookSeat user_id train_id seats) = (train_id = tid \<longrightarrow> 0 \<le> seats)"
| "nonneg_on tid (Register data hashed_password) = True"
| "nonneg_on tid (AddTrain current_user_id data) = True"

text \<open>Every booking refers to a train of the store.\<close>

definition bookings_refer_to_trains :: "db \<Rightarrow> bool" where
  "bookings_refer_to_trains d \<longleftrightarrow>
     (\<forall>b \<in> set (bookings d). b_train_id b \<in> t_id ` set (trains d))"

subsection \<open>A store to run the handlers on\<close>

text \<open>
  One administrator and one train of capacity 10; then the same after a booking of 4; and
  a store whose train holds the largest number of seats that the store can hold.
\<close>

definition scenario_db :: db where
  "scenario_db =
     \<lparr>users = [\<lparr>u_id = 1, u_name = ''Asha'', u_email = codes ''asha@rail.in'',
                 u_password = ''pbkdf2'', u_role = ''admin''\<rparr>],
      trains = [\<lparr>t_id = 1, t_name = ''Express'', t_source = ''Pune'',
                  t_destination = ''Delhi'', total_seats = 10\<rparr>],
      bookings = []\<rparr>"

definition scenario_db_booked :: db where
  "scenario_db_booked =
     \<lparr>users = [\<lparr>u_id = 1, u_name = ''Asha'', u_email = codes ''asha@rail.in'',
                 u_password = ''pbkdf2'', u_role = ''admin''\<rparr>],
      trains = [\<lparr>t_id = 1, t_name = ''Express'', t_source = ''Pune'',
                  t_destination = ''Delhi'', total_seats = 6\<rparr>],
      bookings = [\<lparr>b_id = 1, b_user_id = 1, b_train_id = 1, seats_booked = 4\<rparr>]\<rparr>"

definition full_db :: db where
  "full_db =
     \<lparr>users = [],
      trains = [\<lparr>t_id = 1, t_name = ''Express'', t_source = ''Pune'',
                  t_destination = ''Delhi'', total_seats = 2 ^ 63 - 1\<rparr>],
      bookings = []\<rparr>"

text \<open>A fragment of the Unicode table: U+00E9 is a letter.\<close>

definition e_acute :: "nat \<Rightarrow> bool" where
  "e_acute c \<longleftrightarrow> c = 233"

section \<open>Evaluating the model\<close>

lemmas eval_simps = scenario_db_def scenario_db_booked_def book_seat_def get_availability_def
  booked_seats_def sum_seats_booked_def or_zero_def next_id_def Let_def run_def
  seats_booked_sum_def freshly_created_def get_booking_def empty_db_def storable_def
  full_db_def

lemma valid_email_example: "is_valid_email e_acute (codes ''eve@mail.org'')"
  by code_simp

lemma invalid_email_example: "\<not> is_valid_email e_acute (codes ''bad-email'')"
  by code_simp

text \<open>An address that begins with U+00E9 is valid, as Python's \<^verbatim>\<open>\w\<close> has it.\<close>

lemma unicode_email_example: "is_valid_email e_acute (233 # codes ''ve@mail.org'')"
  by code_simp

text \<open>The store of the scenario is what registering an administrator and adding a train
  to the empty store leaves.\<close>

lemma scenario_db_reachable:
  "scenario_db = run e_acute empty_db
     [Register \<lparr>rj_name = ''Asha'', rj_email = codes ''asha@rail.in'', rj_password = ''secret'',
                 rj_role = Some ''admin''\<rparr> ''pbkdf2'',
      AddTrain 1 \<lparr>tj_name = ''Express'', tj_source = ''Pune'', tj_destination = ''Delhi'',
                   tj_total_seats = 10\<rparr>]"
  by code_simp

text \<open>A train of \<open>2 ^ 63\<close> seats is refused by the store: 500, and no train is added.\<close>

lemma add_train_refused_example:
  "add_train scenario_db 1 \<lparr>tj_name = ''Mail'', tj_source = ''Pune'', tj_destination = ''Goa'',
                             tj_total_seats = 2 ^ 63\<rparr>
     = (scenario_db, (ExceptionText StoreException, 500))"
  by (simp add: add_train_def admin_required_def scenario_db_def storable_def Let_def)

section \<open>Keys and queries\<close>

lemma next_id_fresh: "x \<in> set ids \<Longrightarrow> x < next_id ids"
proof -
  assume "x \<in> set ids"
  then have "x \<le> Max (set (0 # ids))" by (intro Max_ge) auto
  also have "\<dots> = fold max ids 0" by (rule Max.set_eq_fold)
  finally show ?thesis by (simp add: next_id_def)
qed

lemma find_as_filter:
  "List.find P xs = (case filter P xs of [] \<Rightarrow> None | x # _ \<Rightarrow> Some x)"
  by (induction xs) auto

lemma find_snoc_fresh:
  "\<forall>x \<in> set xs. \<not> P x \<Longrightarrow> P y \<Longrightarrow> List.find P (xs @ [y]) = Some y"
  by (induction xs) auto

text \<open>The query of the handlers computes the sum of the train's bookings.\<close>

lemma booked_seats_sum: "booked_seats d tid = seats_booked_sum d tid"
  by (simp add: booked_seats_def or_zero_def sum_seats_booked_def seats_booked_sum_def
      split: list.split)

lemma availability_loop_map:
  "availability_loop d ts result =
     result @ map (\<lambda>t. \<lparr>a_id = t_id t, a_name = t_name t, available_seats = total_seats t,
                        a_source = t_source t, a_destination = t_destination t\<rparr>) ts"
  by (induction ts arbitrary: result) simp_all

section \<open>What a call to \<^verbatim>\<open>book_seat\<close> changes\<close>

lemma book_seat_trains_bookings:
  "book_seat d uid k s = (d', r) \<Longrightarrow> snd r = 201 \<Longrightarrow>
    (\<exists>train. List.find (\<lambda>t. t_id t = k) (trains d) = Some train
      \<and> s \<le> total_seats train - seats_booked_sum d k
      \<and> trains d' = map (\<lambda>t. if t_id t = k then t\<lparr>total_seats := total_seats t - s\<rparr> else t)
                        (trains d)
      \<and> bookings d' = bookings d @ [\<lparr>b_id = next_id (map b_id (bookings d)), b_user_id = uid,
                                      b_train_id = k, seats_booked = s\<rparr>]
      \<and> users d' = users d
      \<and> storable s \<and> storable (total_seats train - s))"
  by (auto simp: book_seat_def Let_def booked_seats_sum find_Some_iff
      split: option.splits if_splits)

lemma book_seat_failed:
  "book_seat d uid k s = (d', r) \<Longrightarrow> snd r \<noteq> 201 \<Longrightarrow> d' = d"
  by (auto simp: book_seat_def Let_def split: option.splits if_splits)

lemma filter_map_other:
  "filter (\<lambda>t. t_id t = tid)
     (map (\<lambda>t. if t_id t = k then t\<lparr>total_seats := total_seats t - s\<rparr> else t) ts)
   = (if k = tid
      then map (\<lambda>t. t\<lparr>total_seats := total_seats t - s\<rparr>) (filter (\<lambda>t. t_id t = tid) ts)
      else filter (\<lambda>t. t_id t = tid) ts)"
  by (induction ts) auto

lemma map_t_id_update:
  "map t_id (map (\<lambda>t. if t_id t = k then t\<lparr>total_seats := total_seats t - s\<rparr> else t) ts)
     = map t_id ts"
  by (induction ts) auto

lemma seats_booked_sum_register:
  "seats_booked_sum (fst (register alnum d data h)) tid = seats_booked_sum d tid"
  by (simp add: register_def seats_booked_sum_def Let_def split: option.split)

lemma seats_booked_sum_add_train:
  "seats_booked_sum (fst (add_train d uid data)) tid = seats_booked_sum d tid"
  by (simp add: add_train_def seats_booked_sum_def Let_def)

lemma seats_booked_sum_book_seat:
  "seats_booked_sum (fst (book_seat d uid k s)) tid =
     (if snd (snd (book_seat d uid k s)) = 201 \<and> k = tid
      then seats_booked_sum d tid + s else seats_booked_sum d tid)"
  by (auto simp: book_seat_def seats_booked_sum_def Let_def split: option.splits)

section \<open>The ledger equation is an invariant\<close>

lemma fresh_ledger: "freshly_created d tid c \<Longrightarrow> ledger d tid c"
  by (simp add: freshly_created_def ledger_def seats_booked_sum_def)

lemma fresh_train_has_no_seats_booked:
  "freshly_created d tid capacity \<Longrightarrow> seats_booked_sum (run alnum d []) tid = 0"
  by (simp add: freshly_created_def seats_booked_sum_def run_def)

lemma ledger_has_row: "ledger d tid c \<Longrightarrow> tid \<in> set (map t_id (trains d))"
proof -
  assume "ledger d tid c"
  then have "filter (\<lambda>t. t_id t = tid) (trains d) \<noteq> []" by (auto simp: ledger_def)
  then obtain t where "t \<in> set (trains d)" "t_id t = tid"
    by (auto simp: filter_empty_conv)
  then show ?thesis by force
qed

lemma ledger_row:
  assumes "ledger d tid c" and "List.find (\<lambda>t. t_id t = tid) (trains d) = Some train"
  shows "total_seats train = c - seats_booked_sum d tid"
  using assms by (auto simp: ledger_def find_as_filter split: list.splits)

lemma ledger_member:
  assumes "ledger d tid c" and "t \<in> set (trains d)" and "t_id t = tid"
  shows "total_seats t = c - seats_booked_sum d tid"
proof -
  have eq: "map total_seats (filter (\<lambda>t. t_id t = tid) (trains d))
              = [c - seats_booked_sum d tid]"
    using assms(1) by (simp add: ledger_def)
  have "total_seats t \<in> set (map total_seats (filter (\<lambda>t. t_id t = tid) (trains d)))"
    using assms(2,3) by force
  then show ?thesis unfolding eq by simp
qed

lemma ledger_register: "ledger d tid c \<Longrightarrow> ledger (fst (register alnum d data h)) tid c"
  by (simp add: register_def ledger_def seats_booked_sum_def Let_def split: option.split)

lemma ledger_add_train:
  assumes "ledger d tid c"
  shows "ledger (fst (add_train d uid data)) tid c"
proof -
  have "tid < next_id (map t_id (trains d))"
    using assms by (intro next_id_fresh ledger_has_row)
  then show ?thesis
    using assms by (simp add: add_train_def ledger_def seats_booked_sum_def Let_def)
qed

lemma ledger_book_seat:
  assumes "ledger d tid c"
  shows "ledger (fst (book_seat d uid k s)) tid c"
proof (cases "snd (snd (book_seat d uid k s)) = 201")
  case False
  then have "fst (book_seat d uid k s) = d"
    using book_seat_failed [of d uid k s "fst (book_seat d uid k s)" "snd (book_seat d uid k s)"]
    by simp
  then show ?thesis using assms by simp
next
  case True
  let ?d' = "fst (book_seat d uid k s)"
  from True obtain train where
    tr: "trains ?d' = map (\<lambda>t. if t_id t = k then t\<lparr>total_seats := total_seats t - s\<rparr> else t)
                        (trains d)"
    and bk: "bookings ?d' = bookings d @ [\<lparr>b_id = next_id (map b_id (bookings d)),
                                          b_user_id = uid, b_train_id = k, seats_booked = s\<rparr>]"
    using book_seat_trains_bookings [of d uid k s ?d' "snd (book_seat d uid k s)"] by auto
  show ?thesis
    using assms by (auto simp: ledger_def seats_booked_sum_def tr bk filter_map_other)
qed

lemma ledger_exec: "ledger d tid c \<Longrightarrow> ledger (exec alnum d x) tid c"
  by (cases x) (simp_all add: ledger_register ledger_add_train ledger_book_seat)

lemma ledger_run: "ledger d tid c \<Longrightarrow> ledger (run alnum d calls) tid c"
  unfolding run_def by (induction calls arbitrary: d) (simp_all add: ledger_exec)

section \<open>Trains are created fresh\<close>

lemma refer_empty: "bookings_refer_to_trains empty_db"
  by (simp add: bookings_refer_to_trains_def empty_db_def)

lemma refer_exec:
  assumes "bookings_refer_to_trains d"
  shows "bookings_refer_to_trains (exec alnum d x)"
proof (cases x)
  case (Register data h)
  then show ?thesis
    using assms
    by (simp add: bookings_refer_to_trains_def register_def Let_def split: option.split)
next
  case (AddTrain uid data)
  then show ?thesis
    using assms by (auto simp: bookings_refer_to_trains_def add_train_def Let_def)
next
  case (BookSeat uid k s)
  let ?res = "book_seat d uid k s"
  show ?thesis
  proof (cases "snd (snd ?res) = 201")
    case False
    then have "fst ?res = d"
      using book_seat_failed [of d uid k s "fst ?res" "snd ?res"] by simp
    then show ?thesis using assms BookSeat by simp
  next
    case True
    then obtain train where
      f: "List.find (\<lambda>t. t_id t = k) (trains d) = Some train"
      and tr: "trains (fst ?res) =
                 map (\<lambda>t. if t_id t = k then t\<lparr>total_seats := total_seats t - s\<rparr> else t)
                   (trains d)"
      and bk: "bookings (fst ?res) = bookings d @ [\<lparr>b_id = next_id (map b_id (bookings d)),
                                        b_user_id = uid, b_train_id = k, seats_booked = s\<rparr>]"
      using book_seat_trains_bookings [of d uid k s "fst ?res" "snd ?res"] by auto
    have "set (map t_id (trains (fst ?res))) = set (map t_id (trains d))"
      unfolding tr map_t_id_update ..
    then have ids: "t_id ` set (trains (fst ?res)) = t_id ` set (trains d)"
      by (simp only: set_map)
    have "k \<in> t_id ` set (trains d)"
      using f by (force simp: find_Some_iff in_set_conv_nth)
    then show ?thesis
      using assms BookSeat by (auto simp: bookings_refer_to_trains_def ids bk)
  qed
qed

lemma refer_run: "bookings_refer_to_trains d \<Longrightarrow> bookings_refer_to_trains (run alnum d calls)"
  unfolding run_def by (induction calls arbitrary: d) (simp_all add: refer_exec)

text \<open>
  In every store reached from the empty one, a train that \<^verbatim>\<open>add_train\<close> has just
  inserted (a request by an administrator that the store accepts) is freshly created,
  with the \<^verbatim>\<open>total_seats\<close> of the request as its capacity.
\<close>

lemma add_train_freshly_created:
  assumes "bookings_refer_to_trains d" and "admin_required d uid"
    and "storable (tj_total_seats data)"
  shows "freshly_created (fst (add_train d uid data)) (next_id (map t_id (trains d)))
           (tj_total_seats data)"
proof -
  let ?n = "next_id (map t_id (trains d))"
  have ts: "\<forall>t \<in> set (trains d). t_id t \<noteq> ?n"
    using next_id_fresh [of _ "map t_id (trains d)"] by fastforce
  then have "filter (\<lambda>t. t_id t = ?n) (trains d) = []"
    by (simp add: filter_empty_conv)
  moreover have "filter (\<lambda>b. b_train_id b = ?n) (bookings d) = []"
    using assms(1) ts by (force simp: bookings_refer_to_trains_def filter_empty_conv)
  ultimately show ?thesis
    using assms(2,3) by (simp add: freshly_created_def add_train_def Let_def)
qed

section \<open>Seats booked against capacity\<close>

lemma within_capacity_exec:
  assumes "within_capacity d tid c" and "nonneg_on tid x"
  shows "within_capacity (exec alnum d x) tid c"
proof (cases x)
  case (Register data h)
  then show ?thesis
    using assms by (simp add: within_capacity_def ledger_register seats_booked_sum_register)
next
  case (AddTrain uid data)
  then show ?thesis
    using assms by (simp add: within_capacity_def ledger_add_train seats_booked_sum_add_train)
next
  case (BookSeat uid k s)
  let ?res = "book_seat d uid k s"
  have led: "ledger (fst ?res) tid c"
    using assms(1) by (simp add: within_capacity_def ledger_book_seat)
  show ?thesis
  proof (cases "snd (snd ?res) = 201 \<and> k = tid")
    case False
    then have "seats_booked_sum (fst ?res) tid = seats_booked_sum d tid"
      by (auto simp: seats_booked_sum_book_seat)
    then show ?thesis using assms(1) led BookSeat by (simp add: within_capacity_def)
  next
    case True
    then obtain train where
      f: "List.find (\<lambda>t. t_id t = tid) (trains d) = Some train"
      and le: "s \<le> total_seats train - seats_booked_sum d tid"
      using book_seat_trains_bookings [of d uid k s "fst ?res" "snd ?res"] by auto
    have "total_seats train = c - seats_booked_sum d tid"
      using assms(1) f by (simp add: within_capacity_def ledger_row)
    moreover have "0 \<le> s" using assms(2) BookSeat True by simp
    moreover have "seats_booked_sum (fst ?res) tid = seats_booked_sum d tid + s"
      using True by (auto simp: seats_booked_sum_book_seat)
    ultimately show ?thesis
      using assms(1) led le BookSeat by (simp add: within_capacity_def)
  qed
qed

lemma within_capacity_run:
  "within_capacity d tid c \<Longrightarrow> \<forall>x \<in> set calls. nonneg_on tid x \<Longrightarrow>
     within_capacity (run alnum d calls) tid c"
  unfolding run_def by (induction calls arbitrary: d) (simp_all add: within_capacity_exec)

text \<open>
  Claim C1, as amended. Take a freshly created train of capacity at least 0 and any
  sequence of calls (bookings on any train, successful or not, registrations, new trains)
  in which no booking on this train asks for a negative number of seats. Afterwards the
  sum of \<^verbatim>\<open>seats_booked\<close> over the train's bookings is at most the \<^verbatim>\<open>total_seats\<close> the
  train was created with.
\<close>

theorem booked_within_capacity:
  assumes "freshly_created d tid capacity" and "0 \<le> capacity"
    and "\<forall>x \<in> set calls. nonneg_on tid x"
  shows "seats_booked_sum (run alnum d calls) tid \<le> capacity"
proof -
  have "within_capacity d tid capacity"
    using assms(1,2) fresh_ledger [OF assms(1)]
    by (simp add: within_capacity_def freshly_created_def seats_booked_sum_def)
  then have "within_capacity (run alnum d calls) tid capacity"
    using assms(3) by (rule within_capacity_run)
  then show ?thesis by (simp add: within_capacity_def)
qed

text \<open>
  The theorem at the train of capacity 10: bookings of 4 and of 2 succeed, a third of 1 is
  refused, and 6 seats are booked.
\<close>

theorem booked_within_capacity_witness:
  "freshly_created scenario_db 1 10 \<and> (0::int) \<le> 10
   \<and> nonneg_on 1 (BookSeat 1 1 4) \<and> nonneg_on 1 (BookSeat 1 1 2) \<and> nonneg_on 1 (BookSeat 1 1 1)
   \<and> seats_booked_sum (run e_acute scenario_db [BookSeat 1 1 4, BookSeat 1 1 2, BookSeat 1 1 1]) 1 = 6
   \<and> seats_booked_sum (run e_acute scenario_db [BookSeat 1 1 4, BookSeat 1 1 2, BookSeat 1 1 1]) 1
       \<le> 10"
proof -
  have f: "freshly_created scenario_db 1 10" by (simp add: eval_simps)
  have n: "\<forall>x \<in> set [BookSeat 1 1 4, BookSeat 1 1 2, BookSeat 1 1 1]. nonneg_on 1 x"
    by simp
  have v: "seats_booked_sum (run e_acute scenario_db [BookSeat 1 1 4, BookSeat 1 1 2, BookSeat 1 1 1]) 1
             = 6"
    by (simp add: eval_simps)
  from booked_within_capacity [where alnum = e_acute, OF f _ n] f v show ?thesis by simp
qed

text \<open>
  Claim C1 as stated fails. On the fresh train of capacity 10, a booking of -100 seats
  succeeds and raises \<^verbatim>\<open>total_seats\<close> to 110; a booking of 210 seats then succeeds as
  well, and the bookings of the train sum to 110, more than the capacity 10.
\<close>

theorem booked_exceeds_capacity_counterexample:
  "freshly_created scenario_db 1 10
   \<and> snd (book_seat scenario_db 1 1 (- 100)) = (BookingCreated ''Booking successful'' 1, 201)
   \<and> snd (book_seat (fst (book_seat scenario_db 1 1 (- 100))) 1 1 210)
       = (BookingCreated ''Booking successful'' 2, 201)
   \<and> seats_booked_sum (run e_acute scenario_db [BookSeat 1 1 (- 100), BookSeat 1 1 210]) 1 = 110
   \<and> \<not> seats_booked_sum (run e_acute scenario_db [BookSeat 1 1 (- 100), BookSeat 1 1 210]) 1 \<le> 10"
  by (simp add: eval_simps)

section \<open>Availability\<close>

text \<open>
  Claim C2. Capacity is the number of seats the train was created with. In every store
  reached from the train's creation by any sequence of calls, \<^verbatim>\<open>get_availability\<close> on the
  train's route answers 200 with an entry for the train, and \<^verbatim>\<open>available_seats\<close> of that
  entry is the capacity less the sum of \<^verbatim>\<open>seats_booked\<close> over the train's bookings:
  \<^verbatim>\<open>book_seat\<close> has taken every booking off the stored \<^verbatim>\<open>total_seats\<close> that the handler
  reports.
\<close>

theorem availability_is_capacity_minus_booked:
  assumes "freshly_created d0 tid capacity" and "d = run alnum d0 calls"
    and "train \<in> set (trains d)" and "t_id train = tid"
    and "t_source train = source" and "t_destination train = destination"
    and "source \<noteq> []" and "destination \<noteq> []"
  shows "\<exists>entries. get_availability d source destination = (AvailabilityList entries, 200)
           \<and> (\<exists>e \<in> set entries. a_id e = tid)
           \<and> (\<forall>e \<in> set entries. a_id e = tid \<longrightarrow>
                 available_seats e = capacity - seats_booked_sum d tid)"
proof -
  let ?matching = "filter (\<lambda>t. t_source t = source \<and> t_destination t = destination) (trains d)"
  have led: "ledger d tid capacity"
    using assms(1,2) by (simp add: fresh_ledger ledger_run)
  have mem: "train \<in> set ?matching" using assms(3,5,6) by simp
  then have ne: "?matching \<noteq> []" by (metis empty_iff empty_set)
  have res: "get_availability d source destination =
          (AvailabilityList (availability_loop d ?matching []), 200)"
    using assms(7,8) ne by (simp add: get_availability_def Let_def)
  have "\<exists>e \<in> set (availability_loop d ?matching []). a_id e = tid"
    using mem assms(4) by (auto simp: availability_loop_map)
  moreover have "\<forall>e \<in> set (availability_loop d ?matching []). a_id e = tid \<longrightarrow>
                 available_seats e = capacity - seats_booked_sum d tid"
    using ledger_member [OF led] by (auto simp: availability_loop_map)
  ultimately show ?thesis using res by blast
qed

theorem availability_is_capacity_minus_booked_witness:
  "freshly_created scenario_db 1 10
   \<and> scenario_db_booked = run e_acute scenario_db [BookSeat 1 1 4]
   \<and> (\<exists>entries. get_availability scenario_db_booked ''Pune'' ''Delhi''
                    = (AvailabilityList entries, 200)
         \<and> (\<exists>e \<in> set entries. a_id e = 1)
         \<and> (\<forall>e \<in> set entries. a_id e = 1 \<longrightarrow>
               available_seats e = 10 - seats_booked_sum scenario_db_booked 1))
   \<and> seats_booked_sum scenario_db_booked 1 = 4"
proof -
  have f: "freshly_created scenario_db 1 10" by (simp add: eval_simps)
  have r: "scenario_db_booked = run e_acute scenario_db [BookSeat 1 1 4]" by (simp add: eval_simps)
  have m: "\<lparr>t_id = 1, t_name = ''Express'', t_source = ''Pune'', t_destination = ''Delhi'',
             total_seats = 6\<rparr> \<in> set (trains scenario_db_booked)"
    by (simp add: scenario_db_booked_def)
  have v: "seats_booked_sum scenario_db_booked 1 = 4" by (simp add: eval_simps)
  from availability_is_capacity_minus_booked [OF f r m, of "''Pune''" "''Delhi''"] f r v
  show ?thesis by simp
qed

lemma get_availability_entries:
  "get_availability d source destination = (AvailabilityList entries, 200) \<Longrightarrow>
     entries = map (\<lambda>t. \<lparr>a_id = t_id t, a_name = t_name t, available_seats = total_seats t,
                           a_source = t_source t, a_destination = t_destination t\<rparr>)
                 (filter (\<lambda>t. t_source t = source \<and> t_destination t = destination) (trains d))"
  by (auto simp: get_availability_def Let_def availability_loop_map split: if_splits)

lemma get_availability_bookings:
  "get_availability (d\<lparr>bookings := bs\<rparr>) source destination
     = get_availability d source destination"
  by (simp add: get_availability_def Let_def availability_loop_map)

text \<open>
  Claim C9. The answer of \<^verbatim>\<open>get_availability\<close> does not depend on the bookings table:
  on two stores that differ only in their bookings it is the same. When it is a list of
  entries, these are the matching trains in order, each with its id and with the stored
  \<^verbatim>\<open>total_seats\<close> of its row as \<^verbatim>\<open>available_seats\<close>.
\<close>

theorem availability_is_stored_total_seats:
  "get_availability (d\<lparr>bookings := other_bookings\<rparr>) source destination
     = get_availability d source destination
   \<and> (\<forall>entries. get_availability d source destination = (AvailabilityList entries, 200) \<longrightarrow>
         map (\<lambda>e. (a_id e, available_seats e)) entries
           = map (\<lambda>t. (t_id t, total_seats t))
               (filter (\<lambda>t. t_source t = source \<and> t_destination t = destination) (trains d)))"
proof (intro conjI allI impI)
  show "get_availability (d\<lparr>bookings := other_bookings\<rparr>) source destination
     = get_availability d source destination"
    by (rule get_availability_bookings)
next
  fix entries
  assume "get_availability d source destination = (AvailabilityList entries, 200)"
  from get_availability_entries [OF this]
  show "map (\<lambda>e. (a_id e, available_seats e)) entries
           = map (\<lambda>t. (t_id t, total_seats t))
               (filter (\<lambda>t. t_source t = source \<and> t_destination t = destination) (trains d))"
    by (simp add: comp_def)
qed

theorem availability_is_stored_total_seats_witness:
  "get_availability scenario_db_booked ''Pune'' ''Delhi''
     = (AvailabilityList [\<lparr>a_id = 1, a_name = ''Express'', available_seats = 6,
                           a_source = ''Pune'', a_destination = ''Delhi''\<rparr>], 200)
   \<and> get_availability (scenario_db_booked\<lparr>bookings := []\<rparr>) ''Pune'' ''Delhi''
     = get_availability scenario_db_booked ''Pune'' ''Delhi''
   \<and> map (\<lambda>e. (a_id e, available_seats e))
        [\<lparr>a_id = 1, a_name = ''Express'', available_seats = 6,
          a_source = ''Pune'', a_destination = ''Delhi''\<rparr>]
      = map (\<lambda>t. (t_id t, total_seats t))
          (filter (\<lambda>t. t_source t = ''Pune'' \<and> t_destination t = ''Delhi'')
             (trains scenario_db_booked))"
proof -
  have g: "get_availability scenario_db_booked ''Pune'' ''Delhi''
     = (AvailabilityList [\<lparr>a_id = 1, a_name = ''Express'', available_seats = 6,
                           a_source = ''Pune'', a_destination = ''Delhi''\<rparr>], 200)"
    by (simp add: eval_simps)
  from availability_is_stored_total_seats [where d = scenario_db_booked
      and other_bookings = "[]" and source = "''Pune''" and destination = "''Delhi''"] g
  show ?thesis by blast
qed

section \<open>Booking\<close>

text \<open>
  Claim C3, as amended. \<^verbatim>\<open>book_seat\<close> does not reject a request for the sign of the
  requested number of seats. For a request of zero or fewer seats: whenever the answer is
  not 201, the store is unchanged, so no booking is created and no train is written; and
  on an existing train that has no bookings yet and stores a non-negative \<^verbatim>\<open>total_seats\<close>
  the request is accepted, provided the store can hold the two integers of the commit: the
  answer is 201, one booking with the requested \<^verbatim>\<open>seats_booked\<close> is added, and the
  request is subtracted from the train's \<^verbatim>\<open>total_seats\<close>, which does not become smaller.
\<close>

theorem book_seat_nonpositive:
  assumes "seats \<le> 0"
  shows "(snd (snd (book_seat d user_id train_id seats)) \<noteq> 201 \<longrightarrow>
            fst (book_seat d user_id train_id seats) = d)
     \<and> (List.find (\<lambda>t. t_id t = train_id) (trains d) = Some train
          \<and> filter (\<lambda>b. b_train_id b = train_id) (bookings d) = []
          \<and> 0 \<le> total_seats train
          \<and> storable seats \<and> storable (total_seats train - seats) \<longrightarrow>
        book_seat d user_id train_id seats =
          (d\<lparr>bookings := bookings d @ [\<lparr>b_id = next_id (map b_id (bookings d)),
                                          b_user_id = user_id, b_train_id = train_id,
                                          seats_booked = seats\<rparr>],
             trains := map (\<lambda>t. if t_id t = train_id
                                 then t\<lparr>total_seats := total_seats t - seats\<rparr> else t)
                           (trains d)\<rparr>,
           (BookingCreated ''Booking successful'' (next_id (map b_id (bookings d))), 201))
        \<and> total_seats train \<le> total_seats train - seats)"
proof (intro conjI impI)
  assume "snd (snd (book_seat d user_id train_id seats)) \<noteq> 201"
  then show "fst (book_seat d user_id train_id seats) = d"
    using book_seat_failed [of d user_id train_id seats
        "fst (book_seat d user_id train_id seats)" "snd (book_seat d user_id train_id seats)"]
    by simp
next
  assume h: "List.find (\<lambda>t. t_id t = train_id) (trains d) = Some train
          \<and> filter (\<lambda>b. b_train_id b = train_id) (bookings d) = []
          \<and> 0 \<le> total_seats train
          \<and> storable seats \<and> storable (total_seats train - seats)"
  then have tid: "t_id train = train_id" by (auto simp: find_Some_iff)
  have "seats_booked_sum d train_id = 0"
    using h by (simp add: seats_booked_sum_def)
  then have "\<not> total_seats train - booked_seats d train_id < seats"
    using h assms by (simp add: booked_seats_sum)
  then show "book_seat d user_id train_id seats =
          (d\<lparr>bookings := bookings d @ [\<lparr>b_id = next_id (map b_id (bookings d)),
                                          b_user_id = user_id, b_train_id = train_id,
                                          seats_booked = seats\<rparr>],
             trains := map (\<lambda>t. if t_id t = train_id
                                 then t\<lparr>total_seats := total_seats t - seats\<rparr> else t)
                           (trains d)\<rparr>,
           (BookingCreated ''Booking successful'' (next_id (map b_id (bookings d))), 201))"
    using h tid by (simp add: book_seat_def Let_def)
next
  show "total_seats train \<le> total_seats train - seats" using assms by simp
qed

text \<open>
  A booking of -3 seats on the train of capacity 10 is accepted and leaves 13 seats
  stored. A booking of -1 seat on the train that stores the largest number the store can
  hold is answered with 500, and nothing is stored.
\<close>

theorem book_seat_nonpositive_witness:
  "(- 3::int) \<le> 0
   \<and> List.find (\<lambda>t. t_id t = 1) (trains scenario_db)
       = Some \<lparr>t_id = 1, t_name = ''Express'', t_source = ''Pune'', t_destination = ''Delhi'',
                total_seats = 10\<rparr>
   \<and> filter (\<lambda>b. b_train_id b = 1) (bookings scenario_db) = []
   \<and> storable (- 3) \<and> storable (10 - (- 3))
   \<and> book_seat scenario_db 1 1 (- 3) =
       (scenario_db\<lparr>bookings := [\<lparr>b_id = 1, b_user_id = 1, b_train_id = 1,
                                   seats_booked = - 3\<rparr>],
                    trains := [\<lparr>t_id = 1, t_name = ''Express'', t_source = ''Pune'',
                                t_destination = ''Delhi'', total_seats = 13\<rparr>]\<rparr>,
        (BookingCreated ''Booking successful'' 1, 201))
   \<and> (- 1::int) \<le> 0
   \<and> snd (book_seat full_db 1 1 (- 1)) = (ExceptionText StoreException, 500)
   \<and> fst (book_seat full_db 1 1 (- 1)) = full_db"
proof -
  let ?train = "\<lparr>t_id = 1, t_name = ''Express'', t_source = ''Pune'',
                  t_destination = ''Delhi'', total_seats = 10\<rparr>"
  have f: "List.find (\<lambda>t. t_id t = 1) (trains scenario_db) = Some ?train"
    by (simp add: scenario_db_def)
  have e: "filter (\<lambda>b. b_train_id b = 1) (bookings scenario_db) = []"
    by (simp add: scenario_db_def)
  have st: "storable (- 3)" "storable (10 - (- 3))" by (simp_all add: storable_def)
  have n: "(- 3::int) \<le> 0" and m: "(- 1::int) \<le> 0" by simp_all
  have r: "snd (book_seat full_db 1 1 (- 1)) = (ExceptionText StoreException, 500)"
    by (simp add: eval_simps)
  have ok: "book_seat scenario_db 1 1 (- 3) =
       (scenario_db\<lparr>bookings := bookings scenario_db @
            [\<lparr>b_id = next_id (map b_id (bookings scenario_db)), b_user_id = 1,
              b_train_id = 1, seats_booked = - 3\<rparr>],
          trains := map (\<lambda>t. if t_id t = 1 then t\<lparr>total_seats := total_seats t - (- 3)\<rparr>
                              else t) (trains scenario_db)\<rparr>,
        (BookingCreated ''Booking successful'' (next_id (map b_id (bookings scenario_db))),
         201))"
    using book_seat_nonpositive [OF n, of scenario_db 1 1 ?train] f e st by simp
  have unchanged: "fst (book_seat full_db 1 1 (- 1)) = full_db"
    using book_seat_nonpositive [OF m, of full_db 1 1] r by simp
  have "book_seat scenario_db 1 1 (- 3) =
       (scenario_db\<lparr>bookings := [\<lparr>b_id = 1, b_user_id = 1, b_train_id = 1,
                                   seats_booked = - 3\<rparr>],
                    trains := [\<lparr>t_id = 1, t_name = ''Express'', t_source = ''Pune'',
                                t_destination = ''Delhi'', total_seats = 13\<rparr>]\<rparr>,
        (BookingCreated ''Booking successful'' 1, 201))"
    unfolding ok by (simp add: scenario_db_def next_id_def)
  with f e st r unchanged show ?thesis by simp
qed

text \<open>
  Claim C3 as stated fails: a booking of 0 seats on the train of capacity 10 is answered
  with 201 and adds a booking record.
\<close>

theorem book_seat_zero_seats_counterexample:
  "book_seat scenario_db 1 1 0 =
     (scenario_db\<lparr>bookings := [\<lparr>b_id = 1, b_user_id = 1, b_train_id = 1,
                                 seats_booked = 0\<rparr>]\<rparr>,
      (BookingCreated ''Booking successful'' 1, 201))
   \<and> fst (book_seat scenario_db 1 1 0) \<noteq> scenario_db"
  by (simp add: eval_simps)

text \<open>
  Claim C4. On a train of capacity 10 without bookings, \<^verbatim>\<open>get_availability\<close> reports 10
  available seats. A booking of 4 seats succeeds, and 6 seats are reported. A booking of 7
  seats is then refused with 400 ``Not enough seats available'' and leaves the store as it
  was: 6 seats reported, and the one booking of 4 seats.
\<close>

theorem booking_scenario:
  "get_availability scenario_db ''Pune'' ''Delhi'' =
     (AvailabilityList [\<lparr>a_id = 1, a_name = ''Express'', available_seats = 10,
                         a_source = ''Pune'', a_destination = ''Delhi''\<rparr>], 200)
   \<and> book_seat scenario_db 1 1 4 =
       (scenario_db_booked, (BookingCreated ''Booking successful'' 1, 201))
   \<and> get_availability scenario_db_booked ''Pune'' ''Delhi'' =
       (AvailabilityList [\<lparr>a_id = 1, a_name = ''Express'', available_seats = 6,
                           a_source = ''Pune'', a_destination = ''Delhi''\<rparr>], 200)
   \<and> book_seat scenario_db_booked 1 1 7 =
       (scenario_db_booked, (Msg ''Not enough seats available'', 400))
   \<and> bookings scenario_db_booked =
       [\<lparr>b_id = 1, b_user_id = 1, b_train_id = 1, seats_booked = 4\<rparr>]"
  by (simp add: eval_simps)

text \<open>
  Claim C5. A call to \<^verbatim>\<open>book_seat\<close> that does not answer 201 returns the store it was
  given, users, trains and bookings alike; its answer is then 404 ``Train not found'',
  400 ``Not enough seats available'' or, when the store refuses the commit, 500.
\<close>

theorem book_seat_failure_leaves_state:
  assumes "book_seat d user_id train_id seats = (d', r)" and "snd r \<noteq> 201"
  shows "d' = d \<and> (r = (Msg ''Train not found'', 404)
                    \<or> r = (Msg ''Not enough seats available'', 400)
                    \<or> r = (ExceptionText StoreException, 500))"
  using assms by (auto simp: book_seat_def Let_def split: option.splits if_splits)

theorem book_seat_failure_leaves_state_witness:
  "book_seat scenario_db_booked 1 1 7
     = (scenario_db_booked, (Msg ''Not enough seats available'', 400))
   \<and> snd (Msg ''Not enough seats available'', 400::nat) \<noteq> 201
   \<and> book_seat scenario_db_booked 1 9 1 = (scenario_db_booked, (Msg ''Train not found'', 404))
   \<and> snd (Msg ''Train not found'', 404::nat) \<noteq> 201
   \<and> book_seat full_db 1 1 (- 1) = (full_db, (ExceptionText StoreException, 500))
   \<and> snd (ExceptionText StoreException, 500::nat) \<noteq> 201"
proof -
  have a: "book_seat scenario_db_booked 1 1 7 = (fst (book_seat scenario_db_booked 1 1 7),
      (Msg ''Not enough seats available'', 400))"
    by (simp add: eval_simps)
  have b: "book_seat scenario_db_booked 1 9 1 = (fst (book_seat scenario_db_booked 1 9 1),
      (Msg ''Train not found'', 404))"
    by (simp add: eval_simps)
  have c: "book_seat full_db 1 1 (- 1) = (fst (book_seat full_db 1 1 (- 1)),
      (ExceptionText StoreException, 500))"
    by (simp add: eval_simps)
  have n: "snd (Msg ''Not enough seats available'', 400::nat) \<noteq> 201"
    and m: "snd (Msg ''Train not found'', 404::nat) \<noteq> 201"
    and k: "snd (ExceptionText StoreException, 500::nat) \<noteq> 201" by simp_all
  from book_seat_failure_leaves_state [OF a n] book_seat_failure_leaves_state [OF b m]
    book_seat_failure_leaves_state [OF c k] a b c
  show ?thesis by simp
qed

text \<open>
  Claim C6, on the code. The train was created with capacity 10 and has one booking of 4
  seats, so 6 seats are available, and \<^verbatim>\<open>get_availability\<close> reports 6. Two requests, for 3
  and for 4 seats, each fit, and together they ask for more than 6. \<^verbatim>\<open>book_seat\<close>
  refuses both with 400 ``Not enough seats available'', whichever comes first, and a
  refused request leaves the store as it was: it subtracts the booked seats from a
  \<^verbatim>\<open>total_seats\<close> that the earlier booking has already reduced (6 - 4 = 2).
\<close>

theorem book_seat_refuses_both:
  "freshly_created scenario_db 1 10
   \<and> scenario_db_booked = run e_acute scenario_db [BookSeat 1 1 4]
   \<and> get_availability scenario_db_booked ''Pune'' ''Delhi'' =
       (AvailabilityList [\<lparr>a_id = 1, a_name = ''Express'', available_seats = 6,
                           a_source = ''Pune'', a_destination = ''Delhi''\<rparr>], 200)
   \<and> 10 - seats_booked_sum scenario_db_booked 1 = 6
   \<and> book_seat scenario_db_booked 2 1 3 =
       (scenario_db_booked, (Msg ''Not enough seats available'', 400))
   \<and> book_seat scenario_db_booked 3 1 4 =
       (scenario_db_booked, (Msg ''Not enough seats available'', 400))
   \<and> run e_acute scenario_db_booked [BookSeat 2 1 3, BookSeat 3 1 4] = scenario_db_booked
   \<and> run e_acute scenario_db_booked [BookSeat 3 1 4, BookSeat 2 1 3] = scenario_db_booked"
  by (simp add: eval_simps)

text \<open>
  Claim C7. A call to \<^verbatim>\<open>book_seat\<close> with a train id that no train of the store has is
  answered with 404 ``Train not found'' and returns the store unchanged: no booking is
  added and no train is written.
\<close>

theorem book_seat_unknown_train:
  assumes "train_id \<notin> t_id ` set (trains d)"
  shows "book_seat d user_id train_id seats = (d, (Msg ''Train not found'', 404))"
proof -
  have "List.find (\<lambda>t. t_id t = train_id) (trains d) = None"
    using assms by (auto simp: find_None_iff)
  then show ?thesis by (simp add: book_seat_def)
qed

theorem book_seat_unknown_train_witness:
  "(7::nat) \<notin> t_id ` set (trains scenario_db_booked)
   \<and> book_seat scenario_db_booked 1 7 2 = (scenario_db_booked, (Msg ''Train not found'', 404))"
proof -
  have h: "(7::nat) \<notin> t_id ` set (trains scenario_db_booked)"
    by (simp add: scenario_db_booked_def)
  from book_seat_unknown_train [OF h, of 1 2] h show ?thesis by simp
qed

section \<open>Reading a booking\<close>

text \<open>
  Claim C8. When the store holds no booking with the requested id that belongs to the
  requesting user, \<^verbatim>\<open>get_booking\<close> answers 404 ``Booking not found''. A booking with
  that id that belongs to another user is such a case.
\<close>

theorem get_booking_not_owned:
  assumes "\<not> (\<exists>b \<in> set (bookings d). b_id b = booking_id \<and> b_user_id b = user_id)"
  shows "get_booking d user_id booking_id = Inr (Msg ''Booking not found'', 404)"
proof -
  have "List.find (\<lambda>b. b_id b = booking_id \<and> b_user_id b = user_id) (bookings d) = None"
    using assms by (auto simp: find_None_iff)
  then show ?thesis by (simp add: get_booking_def)
qed

text \<open>Booking 1 belongs to user 1; user 2 asks for it.\<close>

theorem get_booking_not_owned_witness:
  "\<not> (\<exists>b \<in> set (bookings scenario_db_booked). b_id b = 1 \<and> b_user_id b = 2)
   \<and> (\<exists>b \<in> set (bookings scenario_db_booked). b_id b = 1 \<and> b_user_id b = 1)
   \<and> get_booking scenario_db_booked 2 1 = Inr (Msg ''Booking not found'', 404)"
proof -
  have h: "\<not> (\<exists>b \<in> set (bookings scenario_db_booked). b_id b = 1 \<and> b_user_id b = 2)"
    by (simp add: scenario_db_booked_def)
  have o: "\<exists>b \<in> set (bookings scenario_db_booked). b_id b = 1 \<and> b_user_id b = 1"
    by (simp add: scenario_db_booked_def)
  from get_booking_not_owned [OF h] h o show ?thesis by simp
qed

section \<open>Registration\<close>

lemma admin_required_new_user:
  "\<forall>u \<in> set us. u_id u \<noteq> u_id n \<Longrightarrow> u_role n = ''admin'' \<Longrightarrow>
     admin_required (d\<lparr>users := us @ [n]\<rparr>) (u_id n)"
  by (simp add: admin_required_def find_snoc_fresh)

text \<open>
  Claim C10. \<^verbatim>\<open>register\<close> takes no identity. For a request whose email is valid and is
  the email of no user, it answers 201 and adds one user with the request's email, whose
  role is the request's role, and \<^verbatim>\<open>'user'\<close> when the request has none. When the request
  says \<^verbatim>\<open>'admin'\<close>, the new user passes \<^verbatim>\<open>admin_required\<close>. This holds whatever the
  Unicode table of \<^verbatim>\<open>\w\<close> is.
\<close>

theorem register_role_unrestricted:
  assumes "is_valid_email alnum (rj_email data)"
    and "rj_email data \<notin> u_email ` set (users d)"
  shows "\<exists>new_user. register alnum d data hashed_password
             = (d\<lparr>users := users d @ [new_user]\<rparr>, (Msg ''User created successfully'', 201))
           \<and> u_email new_user = rj_email data
           \<and> u_role new_user = (case rj_role data of None \<Rightarrow> ''user'' | Some r \<Rightarrow> r)
           \<and> (rj_role data = Some ''admin'' \<longrightarrow>
                admin_required (d\<lparr>users := users d @ [new_user]\<rparr>) (u_id new_user))"
proof -
  let ?new = "\<lparr>u_id = next_id (map u_id (users d)), u_name = rj_name data,
               u_email = rj_email data, u_password = hashed_password,
               u_role = (case rj_role data of None \<Rightarrow> ''user'' | Some r \<Rightarrow> r)\<rparr>"
  have nf: "List.find (\<lambda>u. u_email u = rj_email data) (users d) = None"
    using assms(2) by (force simp: find_None_iff image_iff)
  have reg: "register alnum d data hashed_password
      = (d\<lparr>users := users d @ [?new]\<rparr>, (Msg ''User created successfully'', 201))"
    using assms(1) nf by (simp add: register_def Let_def)
  have fresh: "\<forall>u \<in> set (users d). u_id u \<noteq> next_id (map u_id (users d))"
    using next_id_fresh [of _ "map u_id (users d)"] by fastforce
  have "rj_role data = Some ''admin'' \<longrightarrow>
     admin_required (d\<lparr>users := users d @ [?new]\<rparr>) (u_id ?new)"
  proof
    assume "rj_role data = Some ''admin''"
    then have "u_role ?new = ''admin''" by simp
    moreover have "\<forall>u \<in> set (users d). u_id u \<noteq> u_id ?new" using fresh by simp
    ultimately show "admin_required (d\<lparr>users := users d @ [?new]\<rparr>) (u_id ?new)"
      by (rule admin_required_new_user [rotated])
  qed
  with reg show ?thesis
    by (intro exI [of _ ?new]) simp
qed

text \<open>
  An unauthenticated request with role \<^verbatim>\<open>'admin'\<close>, from an address that begins with
  U+00E9, creates an administrator.
\<close>

theorem register_role_unrestricted_witness:
  "is_valid_email e_acute (233 # codes ''ve@mail.org'')
   \<and> 233 # codes ''ve@mail.org'' \<notin> u_email ` set (users scenario_db)
   \<and> register e_acute scenario_db
        \<lparr>rj_name = ''Eve'', rj_email = 233 # codes ''ve@mail.org'', rj_password = ''pw'',
          rj_role = Some ''admin''\<rparr> ''hash''
      = (scenario_db\<lparr>users := users scenario_db @
            [\<lparr>u_id = 2, u_name = ''Eve'', u_email = 233 # codes ''ve@mail.org'',
              u_password = ''hash'', u_role = ''admin''\<rparr>]\<rparr>,
         (Msg ''User created successfully'', 201))
   \<and> admin_required (fst (register e_acute scenario_db
        \<lparr>rj_name = ''Eve'', rj_email = 233 # codes ''ve@mail.org'', rj_password = ''pw'',
          rj_role = Some ''admin''\<rparr> ''hash'')) 2"
proof -
  let ?data = "\<lparr>rj_name = ''Eve'', rj_email = 233 # codes ''ve@mail.org'',
                 rj_password = ''pw'', rj_role = Some ''admin''\<rparr>"
  have v: "is_valid_email e_acute (rj_email ?data)" using unicode_email_example by simp
  have u: "rj_email ?data \<notin> u_email ` set (users scenario_db)"
    by (simp add: scenario_db_def codes_def)
  from register_role_unrestricted [OF v u, of "''hash''"]
  obtain new_user where
    r: "register e_acute scenario_db ?data ''hash''
          = (scenario_db\<lparr>users := users scenario_db @ [new_user]\<rparr>,
             (Msg ''User created successfully'', 201))"
    and a: "admin_required (scenario_db\<lparr>users := users scenario_db @ [new_user]\<rparr>)
              (u_id new_user)"
    by auto
  have nf: "List.find (\<lambda>u. u_email u = 233 # codes ''ve@mail.org'') (users scenario_db) = None"
    by (simp add: scenario_db_def codes_def)
  have e: "register e_acute scenario_db ?data ''hash''
      = (scenario_db\<lparr>users := users scenario_db @
            [\<lparr>u_id = 2, u_name = ''Eve'', u_email = 233 # codes ''ve@mail.org'',
              u_password = ''hash'', u_role = ''admin''\<rparr>]\<rparr>,
         (Msg ''User created successfully'', 201))"
    using unicode_email_example nf
    by (simp add: register_def Let_def) (simp add: scenario_db_def next_id_def)
  from r e have "new_user = \<lparr>u_id = 2, u_name = ''Eve'', u_email = 233 # codes ''ve@mail.org'',
      u_password = ''hash'', u_role = ''admin''\<rparr>"
    by (simp add: scenario_db_def)
  with a e v u show ?thesis by simp
qed

end
